theory Spec2Isabelle
  imports Main
begin

section \<open>Values shared by \<open>paste_bin/helpers.py\<close> and \<open>paste_bin/core/models.py\<close>\<close>

text \<open>
  Python's \<open>str\<close> is modelled as a list of characters (one \<open>char\<close> per code point, so
  \<open>length\<close> is Python's \<open>len\<close>), \<open>bytes\<close> as a list of 8-bit characters.
\<close>

type_synonym str = string
type_synonym bytes = string

text \<open>
  The exceptions the two modules raise or let through. \<open>PasteMetaUnprocessable\<close> is raised
  \<open>from err\<close>, so it carries its cause next to its message.
\<close>

datatype exn =
    ValidationError str
  | TypeError str
  | ValueError str
  | FileNotFoundError
  | FileExistsError
  | NotADirectoryError
  | IsADirectoryError
  | PasteIdException str
  | PasteDoesNotExistException str
  | PasteExpiredException str
  | PasteMetaVersionInvalid str
  | PasteMetaUnprocessable str exn

definition CURRENT_PASTE_META_VERSION :: int where
  "CURRENT_PASTE_META_VERSION = 1"

subsection \<open>\<open>datetime\<close>\<close>

text \<open>
  A \<open>datetime\<close> holds its calendar fields and an optional \<open>tzinfo\<close> (the UTC offset, in
  microseconds, of an aware value; \<open>None\<close> for a naive one). \<open>datetime.utcnow()\<close> always
  returns a naive value, so the clock reading is a \<open>naive_datetime\<close>.
\<close>

record naive_datetime =
  year :: nat
  month :: nat
  day :: nat
  hour :: nat
  minute :: nat
  second :: nat
  microsecond :: nat

record datetime = naive_datetime +
  tzinfo :: "int option"

text \<open>Python compares naive values field by field, as it compares tuples.\<close>

fun tuple_less :: "nat list \<Rightarrow> nat list \<Rightarrow> bool" where
  "tuple_less (x # xs) (y # ys) = (x < y \<or> (x = y \<and> tuple_less xs ys))"
| "tuple_less [] (y # ys) = True"
| "tuple_less xs [] = False"

definition dt_fields :: "'a naive_datetime_scheme \<Rightarrow> nat list" where
  "dt_fields d = [year d, month d, day d, hour d, minute d, second d, microsecond d]"

definition earlier :: "'a naive_datetime_scheme \<Rightarrow> 'b naive_datetime_scheme \<Rightarrow> bool" where
  "earlier a b = tuple_less (dt_fields a) (dt_fields b)"

text \<open>
  \<open>a < datetime.utcnow()\<close>: the right operand is naive, so the comparison raises
  \<open>TypeError\<close> when \<open>a\<close> is aware and compares the fields otherwise.
\<close>

definition datetime_lt_utcnow :: "datetime \<Rightarrow> naive_datetime \<Rightarrow> exn + bool" where
  "datetime_lt_utcnow a utcnow =
     (case tzinfo a of
        Some off \<Rightarrow> Inl (TypeError ''can't compare offset-naive and offset-aware datetimes'')
      | None \<Rightarrow> Inr (earlier a utcnow))"

text \<open>\<open>d.replace(tzinfo=None)\<close> keeps the fields and drops the offset.\<close>

definition replace_tzinfo_None :: "datetime \<Rightarrow> datetime" where
  "replace_tzinfo_None d = d\<lparr>tzinfo := None\<rparr>"

subsection \<open>The metadata records\<close>

text \<open>
  Both modules declare \<open>PasteMetaVersion\<close> and a \<open>PasteMeta\<close> that inherits from it; the
  one of \<open>core/models.py\<close> has the fields of the one of \<open>helpers.py\<close> followed by
  \<open>lexer_name\<close> and \<open>title\<close>.
\<close>

record PasteMetaVersion =
  version :: int

record helpers_PasteMeta = PasteMetaVersion +
  paste_id :: str
  creation_dt :: datetime
  expire_dt :: "datetime option"

record models_PasteMeta = helpers_PasteMeta +
  lexer_name :: "str option"
  title :: "str option"

text \<open>
  \<open>PasteMeta.is_expired\<close> of \<open>helpers.py\<close>:
  \<^verbatim>\<open>if self.expire_dt is not None and self.expire_dt < datetime.utcnow(): return True\<close>
  \<^verbatim>\<open>return False\<close>
\<close>

definition helpers_is_expired :: "helpers_PasteMeta \<Rightarrow> naive_datetime \<Rightarrow> exn + bool" where
  "helpers_is_expired self utcnow =
     (case expire_dt self of
        None \<Rightarrow> Inr False
      | Some e \<Rightarrow>
          (case datetime_lt_utcnow e utcnow of
             Inl err \<Rightarrow> Inl err
           | Inr b \<Rightarrow> if b then Inr True else Inr False))"

text \<open>
  \<open>PasteMeta.is_expired\<close> of \<open>core/models.py\<close>, which compares
  \<open>self.expire_dt.replace(tzinfo=None)\<close>.
\<close>

definition models_is_expired :: "models_PasteMeta \<Rightarrow> naive_datetime \<Rightarrow> exn + bool" where
  "models_is_expired self utcnow =
     (case expire_dt self of
        None \<Rightarrow> Inr False
      | Some e \<Rightarrow>
          (case datetime_lt_utcnow (replace_tzinfo_None e) utcnow of
             Inl err \<Rightarrow> Inl err
           | Inr b \<Rightarrow> if b then Inr True else Inr False))"

subsection \<open>\<open>PasteApiCreate.validate_title\<close>\<close>

definition validate_title :: "str option \<Rightarrow> exn + str option" where
  "validate_title title_arg =
     (if title_arg \<noteq> None \<and> length (the title_arg) > 32
      then Inl (ValueError ''title must be < 32'')
      else Inr title_arg)"

section \<open>The serialisation library\<close>

text \<open>
  \<open>parse_raw\<close> and \<open>json\<close> are pydantic's, not this repository's: the model takes them as
  a parameter \<open>lib\<close>, so every result below holds for whatever the library does, and a
  result that needs a property of the library states it as a hypothesis.
  \<open>parse_raw\<close> accepts \<open>str | bytes\<close>.
\<close>

datatype str_or_bytes = Str str | Bytes bytes

record 'm pydantic =
  PasteMetaVersion_parse_raw :: "str_or_bytes \<Rightarrow> exn + PasteMetaVersion"
  PasteMeta_parse_raw :: "str_or_bytes \<Rightarrow> exn + 'm"
  PasteMeta_json :: "'m \<Rightarrow> str"

subsection \<open>String formatting\<close>

text \<open>\<open>str(n)\<close> of an integer, as an f-string interpolates it.\<close>

fun str_nat :: "nat \<Rightarrow> str" where
  "str_nat n =
     (if n < 10 then [char_of (48 + n)]
      else str_nat (n div 10) @ [char_of (48 + n mod 10)])"

declare str_nat.simps [simp del]

definition str_int :: "int \<Rightarrow> str" where
  "str_int i = (if i < 0 then CHR ''-'' # str_nat (nat (- i)) else str_nat (nat i))"

text \<open>
  \<open>repr\<close> of a \<open>bytes\<close> value, which is what an f-string interpolates for one: the quote
  is the double quote when the value holds a single quote and no double quote, and the
  single quote otherwise; the quote and the backslash are escaped, tab, newline and
  carriage return are written \<open>\t\<close>, \<open>\n\<close>, \<open>\r\<close>, every other byte outside the printable
  ASCII range as \<open>\xNN\<close>.
\<close>

definition hex_digit :: "nat \<Rightarrow> char" where
  "hex_digit n = (if n < 10 then char_of (48 + n) else char_of (87 + n))"

definition repr_byte :: "char \<Rightarrow> char \<Rightarrow> str" where
  "repr_byte quote c =
     (if c = quote \<or> c = CHR 0x5C then [CHR 0x5C, c]
      else if c = CHR 0x09 then [CHR 0x5C, CHR ''t'']
      else if c = CHR 0x0A then [CHR 0x5C, CHR ''n'']
      else if c = CHR 0x0D then [CHR 0x5C, CHR ''r'']
      else if (of_char c :: nat) < 32 \<or> (of_char c :: nat) \<ge> 127
        then [CHR 0x5C, CHR ''x'', hex_digit (of_char c div 16), hex_digit (of_char c mod 16)]
      else [c])"

definition bytes_repr :: "bytes \<Rightarrow> str" where
  "bytes_repr b =
     (let quote = (if CHR 0x27 \<in> set b \<and> CHR 0x22 \<notin> set b then CHR 0x22 else CHR 0x27)
      in CHR ''b'' # quote # concat (map (repr_byte quote) b) @ [quote])"

definition format_line :: "str_or_bytes \<Rightarrow> str" where
  "format_line l = (case l of Str s \<Rightarrow> s | Bytes b \<Rightarrow> bytes_repr b)"

text \<open>
  \<open>s.encode()\<close>: UTF-8. A code point below 128 is one byte; the others this model has
  (128 to 255) are two bytes, both at least 128.
\<close>

definition encode_char :: "char \<Rightarrow> bytes" where
  "encode_char c =
     (if (of_char c :: nat) < 128 then [c]
      else [char_of (192 + (of_char c :: nat) div 64), char_of (128 + (of_char c :: nat) mod 64)])"

definition encode :: "str \<Rightarrow> bytes" where
  "encode s = concat (map encode_char s)"

section \<open>Decoding a metadata line\<close>

text \<open>
  \<open>get_paste_meta\<close> of \<open>helpers.py\<close>. The body of the \<open>try\<close> is \<open>get_paste_meta_try\<close>;
  the \<open>except ValidationError\<close> clause turns a \<open>ValidationError\<close>, and nothing else, into
  \<open>PasteMetaUnprocessable\<close>.
\<close>

definition version_invalid :: "int \<Rightarrow> exn" where
  "version_invalid v =
     PasteMetaVersionInvalid
       (''paste is not a valid version number of '' @ [CHR 0x27] @ str_int v @ [CHR 0x27])"

definition get_paste_meta_try :: "'m pydantic \<Rightarrow> bytes \<Rightarrow> exn + 'm" where
  "get_paste_meta_try lib meta_line =
     (case PasteMetaVersion_parse_raw lib (Bytes meta_line) of
        Inl err \<Rightarrow> Inl err
      | Inr pv \<Rightarrow>
          if version pv \<noteq> CURRENT_PASTE_META_VERSION then Inl (version_invalid (version pv))
          else PasteMeta_parse_raw lib (Bytes meta_line))"

definition get_paste_meta :: "'m pydantic \<Rightarrow> bytes \<Rightarrow> exn + 'm" where
  "get_paste_meta lib meta_line =
     (case get_paste_meta_try lib meta_line of
        Inl (ValidationError err) \<Rightarrow>
          Inl (PasteMetaUnprocessable ''paste meta cannot be loaded'' (ValidationError err))
      | r \<Rightarrow> r)"

text \<open>
  \<open>PasteMeta.extract_from_line\<close> of \<open>core/models.py\<close>: the same two steps on a
  \<open>str | bytes\<close> line, and a message that interpolates the line.
\<close>

definition extract_from_line_try :: "'m pydantic \<Rightarrow> str_or_bytes \<Rightarrow> exn + 'm" where
  "extract_from_line_try lib line =
     (case PasteMetaVersion_parse_raw lib line of
        Inl err \<Rightarrow> Inl err
      | Inr pv \<Rightarrow>
          if version pv \<noteq> CURRENT_PASTE_META_VERSION then Inl (version_invalid (version pv))
          else PasteMeta_parse_raw lib line)"

definition extract_from_line :: "'m pydantic \<Rightarrow> str_or_bytes \<Rightarrow> exn + 'm" where
  "extract_from_line lib line =
     (case extract_from_line_try lib line of
        Inl (ValidationError err) \<Rightarrow>
          Inl (PasteMetaUnprocessable
                 (''paste meta validation did not pass: '' @ [CHR 0x27] @ format_line line @ [CHR 0x27])
                 (ValidationError err))
      | r \<Rightarrow> r)"

section \<open>Identifiers and paths\<close>

subsection \<open>\<open>secrets.token_urlsafe\<close>\<close>

text \<open>
  \<open>token_urlsafe(nbytes)\<close> is
  \<open>base64.urlsafe_b64encode(token_bytes(nbytes)).rstrip(b'=').decode('ascii')\<close>.
  The random source is a stream of bytes \<open>rng\<close>; \<open>token_bytes n\<close> draws the first \<open>n\<close>.
\<close>

definition token_bytes :: "nat \<Rightarrow> (nat \<Rightarrow> char) \<Rightarrow> bytes" where
  "token_bytes n rng = map rng [0..<n]"

definition urlsafe_alphabet :: str where
  "urlsafe_alphabet =
     ''ABCDEFGHIJKLMNOPQRSTUVWXYZabcdefghijklmnopqrstuvwxyz0123456789-_''"

definition b64_char :: "nat \<Rightarrow> char" where
  "b64_char i = urlsafe_alphabet ! (i mod 64)"

fun urlsafe_b64encode :: "bytes \<Rightarrow> str" where
  "urlsafe_b64encode (a # b # c # rest) =
     (let n = (of_char a :: nat) * 65536 + of_char b * 256 + of_char c
      in [b64_char (n div 262144), b64_char (n div 4096), b64_char (n div 64), b64_char n]
         @ urlsafe_b64encode rest)"
| "urlsafe_b64encode [a, b] =
     (let n = (of_char a :: nat) * 65536 + of_char b * 256
      in [b64_char (n div 262144), b64_char (n div 4096), b64_char (n div 64), CHR ''=''])"
| "urlsafe_b64encode [a] =
     (let n = (of_char a :: nat) * 65536
      in [b64_char (n div 262144), b64_char (n div 4096), CHR ''='', CHR ''=''])"
| "urlsafe_b64encode [] = []"

definition rstrip :: "char \<Rightarrow> str \<Rightarrow> str" where
  "rstrip c s = rev (dropWhile (\<lambda>x. x = c) (rev s))"

definition token_urlsafe :: "nat \<Rightarrow> (nat \<Rightarrow> char) \<Rightarrow> str" where
  "token_urlsafe nbytes rng = rstrip (CHR ''='') (urlsafe_b64encode (token_bytes nbytes rng))"

definition create_paste_id :: "bool \<Rightarrow> (nat \<Rightarrow> char) \<Rightarrow> str" where
  "create_paste_id long rng = (if long then token_urlsafe 30 rng else token_urlsafe 7 rng)"

subsection \<open>\<open>pathlib.Path\<close>\<close>

text \<open>
  A POSIX path is its root (empty for a relative path, \<open>/\<close>, or \<open>//\<close>) and its parts.
  \<open>p / s\<close> is \<open>truediv p s\<close>: \<open>s\<close> is cut at the slashes, its empty and \<open>.\<close> segments are
  dropped, and an \<open>s\<close> that is itself rooted replaces \<open>p\<close>.
\<close>

datatype path = Path (root: str) (parts: "str list")

fun split_sep :: "str \<Rightarrow> str list" where
  "split_sep [] = [[]]"
| "split_sep (c # cs) =
     (if c = CHR ''/'' then [] # split_sep cs
      else (case split_sep cs of [] \<Rightarrow> [[c]] | w # ws \<Rightarrow> (c # w) # ws))"

definition segments :: "str \<Rightarrow> str list" where
  "segments s = filter (\<lambda>x. x \<noteq> [] \<and> x \<noteq> ''.'') (split_sep s)"

definition root_of :: "str \<Rightarrow> str" where
  "root_of s =
     (if take 2 s = ''//'' \<and> take 3 s \<noteq> ''///'' then ''//''
      else if take 1 s = ''/'' then ''/''
      else [])"

definition truediv :: "path \<Rightarrow> str \<Rightarrow> path" where
  "truediv p s =
     (if root_of s \<noteq> [] then Path (root_of s) (segments s)
      else Path (root p) (parts p @ segments s))"

text \<open>\<open>p.parents\<close>: the proper ancestors of \<open>p\<close>, nearest first, down to the root.\<close>

definition parents :: "path \<Rightarrow> path list" where
  "parents p = map (\<lambda>k. Path (root p) (take k (parts p))) (rev [0..<length (parts p)])"

section \<open>The backing store\<close>

text \<open>
  The store is the set of regular files: a map from paths to contents. Directories are not
  kept; creating one changes no file, and fails where a regular file is in the way.
\<close>

type_synonym fs = "path \<rightharpoonup> bytes"

definition isfile :: "path \<Rightarrow> fs \<Rightarrow> bool" where
  "isfile p fs = (fs p \<noteq> None)"

text \<open>\<open>p.mkdir(parents=True, exist_ok=True)\<close>\<close>

definition mkdir_parents_exist_ok :: "path \<Rightarrow> fs \<Rightarrow> exn + fs" where
  "mkdir_parents_exist_ok p fs =
     (if fs p \<noteq> None then Inl FileExistsError
      else if list_ex (\<lambda>q. fs q \<noteq> None) (parents p) then Inl NotADirectoryError
      else Inr fs)"

text \<open>\<open>os.remove\<close>\<close>

definition remove :: "path \<Rightarrow> fs \<Rightarrow> exn + fs" where
  "remove p fs = (if fs p = None then Inl FileNotFoundError else Inr (fs(p := None)))"

text \<open>
  A file opened with \<open>"wb"\<close> is created empty or truncated, and each \<open>write\<close> appends.
  A file opened with \<open>"rb"\<close> is its bytes still to be read.
\<close>

definition open_wb :: "path \<Rightarrow> fs \<Rightarrow> fs" where
  "open_wb p fs = fs(p \<mapsto> [])"

definition fo_write :: "path \<Rightarrow> bytes \<Rightarrow> fs \<Rightarrow> fs" where
  "fo_write p data fs = fs(p \<mapsto> (case fs p of None \<Rightarrow> data | Some old \<Rightarrow> old @ data))"

definition open_rb :: "path \<Rightarrow> fs \<Rightarrow> exn + bytes" where
  "open_rb p fs = (case fs p of None \<Rightarrow> Inl FileNotFoundError | Some data \<Rightarrow> Inr data)"

definition newline :: char where
  "newline = CHR 0x0A"

text \<open>\<open>fo.readline()\<close>: the bytes up to and including the first newline, and the rest.\<close>

definition readline :: "bytes \<Rightarrow> bytes \<times> bytes" where
  "readline fo =
     (let l = takeWhile (\<lambda>c. c \<noteq> newline) fo; r = dropWhile (\<lambda>c. c \<noteq> newline) fo
      in (l @ take 1 r, drop 1 r))"

text \<open>\<open>async for line in fo\<close>: \<open>readline\<close> until it returns nothing.\<close>

function aiter_lines :: "bytes \<Rightarrow> bytes list" where
  "aiter_lines fo =
     (if fo = [] then [] else fst (readline fo) # aiter_lines (snd (readline fo)))"
  by pat_completeness auto
termination
proof (relation "measure length")
  show "wf (measure length)" by simp
next
  fix fo :: bytes
  assume "fo \<noteq> []"
  then obtain c cs where fo: "fo = c # cs" by (cases fo) auto
  have "length (dropWhile (\<lambda>c. c \<noteq> newline) cs) \<le> length cs"
    by (rule length_dropWhile_le)
  then show "(snd (readline fo), fo) \<in> measure length"
    by (simp add: fo readline_def Let_def, arith)
qed

declare aiter_lines.simps [simp del]

section \<open>Store operations of \<open>helpers.py\<close>\<close>

definition create_paste_path :: "path \<Rightarrow> str \<Rightarrow> bool \<Rightarrow> fs \<Rightarrow> (exn + path) \<times> fs" where
  "create_paste_path root_path paste_id_arg mkdir fs =
     (if length paste_id_arg < 3
      then (Inl (PasteIdException ''paste_id too short, must be at least 3 characters long''), fs)
      else
        let full_path = truediv root_path (take 2 paste_id_arg) in
        if mkdir then
          (case mkdir_parents_exist_ok full_path fs of
             Inl err \<Rightarrow> (Inl err, fs)
           | Inr fs' \<Rightarrow> (Inr (truediv full_path (drop 2 paste_id_arg)), fs'))
        else (Inr (truediv full_path (drop 2 paste_id_arg)), fs))"

text \<open>
  The content of \<open>write_paste\<close> is a buffer or an asynchronous generator, here the list of
  the chunks it yields.
\<close>

datatype content = Buffer bytes | AsyncGenerator "bytes list"

fun write_chunks :: "path \<Rightarrow> bytes list \<Rightarrow> fs \<Rightarrow> fs" where
  "write_chunks p [] fs = fs"
| "write_chunks p (chunk # chunks) fs = write_chunks p chunks (fo_write p chunk fs)"

definition write_paste :: "'m pydantic \<Rightarrow> path \<Rightarrow> 'm \<Rightarrow> content \<Rightarrow> fs \<Rightarrow> fs" where
  "write_paste lib paste_path paste_meta c fs =
     (let fs1 = open_wb paste_path fs;
          fs2 = fo_write paste_path (encode (PasteMeta_json lib paste_meta) @ [newline]) fs1
      in case c of
           AsyncGenerator chunks \<Rightarrow> write_chunks paste_path chunks fs2
         | Buffer b \<Rightarrow> fo_write paste_path b fs2)"

definition read_paste_meta :: "'m pydantic \<Rightarrow> path \<Rightarrow> fs \<Rightarrow> exn + 'm" where
  "read_paste_meta lib paste_path fs =
     (case open_rb paste_path fs of
        Inl err \<Rightarrow> Inl err
      | Inr fo \<Rightarrow> get_paste_meta lib (fst (readline fo)))"

text \<open>\<open>read_paste_content\<close> returns the list of the chunks the generator yields.\<close>

definition read_paste_content :: "path \<Rightarrow> fs \<Rightarrow> exn + bytes list" where
  "read_paste_content paste_path fs =
     (case open_rb paste_path fs of
        Inl err \<Rightarrow> Inl err
      | Inr fo \<Rightarrow> Inr (aiter_lines (snd (readline fo))))"

text \<open>
  \<open>try_get_paste\<close> awaits between its steps, so other tasks can delete files meanwhile:
  \<open>gone1\<close> is what they delete between the \<open>isfile\<close> check and the read, \<open>gone2\<close> between the
  read and the \<open>remove\<close>. Of the errors of \<open>remove\<close> only \<open>FileNotFoundError\<close> is caught.
\<close>

definition others_delete :: "path set \<Rightarrow> fs \<Rightarrow> fs" where
  "others_delete gone fs = (\<lambda>p. if p \<in> gone then None else fs p)"

definition try_get_paste ::
  "helpers_PasteMeta pydantic \<Rightarrow> path \<Rightarrow> str \<Rightarrow> bool \<Rightarrow> naive_datetime \<Rightarrow> path set \<Rightarrow> path set \<Rightarrow> fs
     \<Rightarrow> (exn + path \<times> helpers_PasteMeta) \<times> fs" where
  "try_get_paste lib root_path paste_id_arg auto_remove utcnow gone1 gone2 fs =
     (case create_paste_path root_path paste_id_arg False fs of
        (Inl err, fs0) \<Rightarrow> (Inl err, fs0)
      | (Inr paste_path, fs0) \<Rightarrow>
          if \<not> isfile paste_path fs0
          then (Inl (PasteDoesNotExistException (''paste not found with id of '' @ paste_id_arg)), fs0)
          else
            let fs1 = others_delete gone1 fs0 in
            (case read_paste_meta lib paste_path fs1 of
               Inl err \<Rightarrow> (Inl err, fs1)
             | Inr paste_meta \<Rightarrow>
                 (case helpers_is_expired paste_meta utcnow of
                    Inl err \<Rightarrow> (Inl err, fs1)
                  | Inr expired \<Rightarrow>
                      if expired then
                        let fs2 = others_delete gone2 fs1 in
                        if auto_remove then
                          (case remove paste_path fs2 of
                             Inl FileNotFoundError \<Rightarrow>
                               (Inl (PasteExpiredException (''paste has expired with id of '' @ paste_id_arg)), fs2)
                           | Inl err \<Rightarrow> (Inl err, fs2)
                           | Inr fs3 \<Rightarrow>
                               (Inl (PasteExpiredException (''paste has expired with id of '' @ paste_id_arg)), fs3))
                        else (Inl (PasteExpiredException (''paste has expired with id of '' @ paste_id_arg)), fs2)
                      else (Inr (paste_path, paste_meta), fs1))))"

section \<open>Values the results are run on\<close>

definition example_now :: naive_datetime where
  "example_now = \<lparr>year = 2024, month = 1, day = 1, hour = 0, minute = 0, second = 0, microsecond = 0\<rparr>"

definition example_created :: datetime where
  "example_created =
     \<lparr>year = 1999, month = 12, day = 31, hour = 8, minute = 30, second = 0, microsecond = 0,
      tzinfo = None\<rparr>"

definition example_past :: datetime where
  "example_past =
     \<lparr>year = 2000, month = 1, day = 1, hour = 0, minute = 0, second = 0, microsecond = 0,
      tzinfo = None\<rparr>"

definition example_future :: datetime where
  "example_future =
     \<lparr>year = 2030, month = 1, day = 1, hour = 0, minute = 0, second = 0, microsecond = 0,
      tzinfo = None\<rparr>"

text \<open>\<open>2000-01-01T00:00:00+00:00\<close>, an aware value.\<close>

definition example_past_aware :: datetime where
  "example_past_aware = example_past\<lparr>tzinfo := Some 0\<rparr>"

definition example_meta :: helpers_PasteMeta where
  "example_meta =
     \<lparr>version = 1, paste_id = ''abcdefghij'', creation_dt = example_created, expire_dt = None\<rparr>"

definition example_models_meta :: models_PasteMeta where
  "example_models_meta =
     \<lparr>version = 1, paste_id = ''abcdefghij'', creation_dt = example_created, expire_dt = None,
      lexer_name = None, title = Some ''notes''\<rparr>"

text \<open>
  A stand-in for the library, to run the model on concrete lines: it knows a table of
  lines with the version each declares and a table of lines with the record each is the
  JSON text of, and reads past a trailing newline as a JSON parser does. No general
  result depends on it.
\<close>

definition text_of :: "str_or_bytes \<Rightarrow> bytes" where
  "text_of l = (case l of Str s \<Rightarrow> encode s | Bytes b \<Rightarrow> b)"

definition table_lib :: "(bytes \<times> int) list \<Rightarrow> (bytes \<times> 'm) list \<Rightarrow> 'm pydantic" where
  "table_lib versions metas =
     \<lparr>PasteMetaVersion_parse_raw =
        (\<lambda>l. case map_of versions (rstrip newline (text_of l)) of
               None \<Rightarrow> Inl (ValidationError ''Expecting value: line 1 column 1 (char 0)'')
             | Some v \<Rightarrow> Inr \<lparr>version = v\<rparr>),
      PasteMeta_parse_raw =
        (\<lambda>l. case map_of metas (rstrip newline (text_of l)) of
               None \<Rightarrow> Inl (ValidationError ''paste_id: field required'')
             | Some m \<Rightarrow> Inr m),
      PasteMeta_json =
        (\<lambda>m. case find (\<lambda>e. snd e = m) metas of None \<Rightarrow> ''{}'' | Some e \<Rightarrow> fst e)\<rparr>"

definition example_line :: bytes where
  "example_line =
     ''{\"version\": 1, \"paste_id\": \"abcdefghij\", \"creation_dt\": \"1999-12-31T08:30:00\", \"expire_dt\": null}''"

definition example_line_past :: bytes where
  "example_line_past =
     ''{\"version\": 1, \"paste_id\": \"abcdefghij\", \"creation_dt\": \"1999-12-31T08:30:00\", \"expire_dt\": \"2000-01-01T00:00:00\"}''"

definition example_line_past_aware :: bytes where
  "example_line_past_aware =
     ''{\"version\": 1, \"paste_id\": \"abcdefghij\", \"creation_dt\": \"1999-12-31T08:30:00\", \"expire_dt\": \"2000-01-01T00:00:00+00:00\"}''"

definition example_line_v2 :: bytes where
  "example_line_v2 =
     ''{\"version\": 2, \"paste_id\": \"abcdefghij\", \"creation_dt\": \"1999-12-31T08:30:00\", \"expire_dt\": null}''"

definition example_line_v99 :: bytes where
  "example_line_v99 = ''{\"version\": 99}''"

definition example_line_v1_only :: bytes where
  "example_line_v1_only = ''{\"version\": 1}''"

definition example_line_models :: bytes where
  "example_line_models =
     ''{\"version\": 1, \"paste_id\": \"abcdefghij\", \"creation_dt\": \"1999-12-31T08:30:00\", \"expire_dt\": null, \"lexer_name\": null, \"title\": \"notes\"}''"

definition example_versions :: "(bytes \<times> int) list" where
  "example_versions =
     [(example_line, 1), (example_line_past, 1), (example_line_past_aware, 1),
      (example_line_v2, 2), (example_line_v99, 99), (example_line_v1_only, 1),
      (example_line_models, 1)]"

definition example_lib :: "helpers_PasteMeta pydantic" where
  "example_lib =
     table_lib example_versions
       [(example_line, example_meta),
        (example_line_past, example_meta\<lparr>expire_dt := Some example_past\<rparr>),
        (example_line_past_aware, example_meta\<lparr>expire_dt := Some example_past_aware\<rparr>),
        (example_line_v2, example_meta\<lparr>version := 2\<rparr>)]"

definition example_models_lib :: "models_PasteMeta pydantic" where
  "example_models_lib = table_lib example_versions [(example_line_models, example_models_meta)]"

definition example_path :: path where
  "example_path = Path ''/'' [''srv'', ''ab'', ''cdefghij'']"

section \<open>Expiry\<close>

lemma datetime_lt_utcnow_naive:
  "datetime_lt_utcnow (replace_tzinfo_None e) now = Inr (earlier e now)"
  by (simp add: datetime_lt_utcnow_def replace_tzinfo_None_def earlier_def dt_fields_def)

text \<open>
  C7. A \<open>PasteMeta\<close> without \<open>expire_dt\<close> is not expired, whatever the clock reads; this
  holds for the property of \<open>helpers.py\<close> and for the one of \<open>core/models.py\<close>.
\<close>

theorem C7_no_expire_dt_never_expired:
  "(expire_dt h = None \<longrightarrow> helpers_is_expired h now = Inr False) \<and>
   (expire_dt m = None \<longrightarrow> models_is_expired m now = Inr False)"
  by (simp add: helpers_is_expired_def models_is_expired_def)

theorem C7_no_expire_dt_never_expired_witness:
  "expire_dt example_meta = None \<and> helpers_is_expired example_meta example_now = Inr False \<and>
   expire_dt example_models_meta = None \<and>
   models_is_expired example_models_meta example_now = Inr False"
  using C7_no_expire_dt_never_expired [of example_meta example_now example_models_meta]
  by (simp add: example_meta_def example_models_meta_def)

text \<open>
  With an \<open>expire_dt\<close>, the property of \<open>core/models.py\<close> always returns, and returns whether
  \<open>expire_dt\<close> without its \<open>tzinfo\<close> is earlier than the clock's naive UTC reading.
\<close>

lemma models_is_expired_total:
  "expire_dt m = Some e \<Longrightarrow>
     models_is_expired m now = Inr (earlier (replace_tzinfo_None e) now)"
  by (simp add: models_is_expired_def datetime_lt_utcnow_def replace_tzinfo_None_def)

lemma models_is_expired_total_witness:
  "expire_dt (example_models_meta\<lparr>expire_dt := Some example_past_aware\<rparr>) = Some example_past_aware \<and>
   models_is_expired (example_models_meta\<lparr>expire_dt := Some example_past_aware\<rparr>) example_now =
     Inr (earlier (replace_tzinfo_None example_past_aware) example_now)"
  using models_is_expired_total
    [of "example_models_meta\<lparr>expire_dt := Some example_past_aware\<rparr>" example_past_aware example_now]
  by simp

text \<open>
  The property of \<open>helpers.py\<close> compares \<open>expire_dt\<close> as it is: it agrees with the one above on
  a naive \<open>expire_dt\<close> and raises \<open>TypeError\<close> on an aware one.
\<close>

lemma helpers_is_expired_naive:
  "expire_dt h = Some e \<Longrightarrow> tzinfo e = None \<Longrightarrow> helpers_is_expired h now = Inr (earlier e now)"
  by (simp add: helpers_is_expired_def datetime_lt_utcnow_def)

lemma helpers_is_expired_naive_witness:
  "expire_dt (example_meta\<lparr>expire_dt := Some example_past\<rparr>) = Some example_past \<and>
   tzinfo example_past = None \<and>
   helpers_is_expired (example_meta\<lparr>expire_dt := Some example_past\<rparr>) example_now =
     Inr (earlier example_past example_now)"
  using helpers_is_expired_naive [of "example_meta\<lparr>expire_dt := Some example_past\<rparr>" example_past example_now]
  by (simp add: example_past_def)

lemma helpers_is_expired_aware:
  "expire_dt h = Some e \<Longrightarrow> tzinfo e = Some off \<Longrightarrow>
     helpers_is_expired h now =
       Inl (TypeError ''can't compare offset-naive and offset-aware datetimes'')"
  by (simp add: helpers_is_expired_def datetime_lt_utcnow_def)

lemma helpers_is_expired_aware_witness:
  "expire_dt (example_meta\<lparr>expire_dt := Some example_past_aware\<rparr>) = Some example_past_aware \<and>
   tzinfo example_past_aware = Some 0 \<and>
   helpers_is_expired (example_meta\<lparr>expire_dt := Some example_past_aware\<rparr>) example_now =
     Inl (TypeError ''can't compare offset-naive and offset-aware datetimes'')"
  using helpers_is_expired_aware
    [of "example_meta\<lparr>expire_dt := Some example_past_aware\<rparr>" example_past_aware 0 example_now]
  by (simp add: example_past_aware_def)

text \<open>
  C8. On the aware \<open>expire_dt\<close> \<open>2000-01-01T00:00:00+00:00\<close> and the clock at 2024-01-01, the
  property of \<open>core/models.py\<close> returns \<open>True\<close>, as the stripped value is earlier than the
  clock; the property of \<open>helpers.py\<close> does not return, it raises \<open>TypeError\<close>.
\<close>

theorem C8_helpers_is_expired_raises_on_aware:
  "earlier (replace_tzinfo_None example_past_aware) example_now \<and>
   models_is_expired (example_models_meta\<lparr>expire_dt := Some example_past_aware\<rparr>) example_now = Inr True \<and>
   helpers_is_expired (example_meta\<lparr>expire_dt := Some example_past_aware\<rparr>) example_now =
     Inl (TypeError ''can't compare offset-naive and offset-aware datetimes'')"
  by (simp add: models_is_expired_def helpers_is_expired_def datetime_lt_utcnow_def
      replace_tzinfo_None_def example_past_aware_def example_past_def example_now_def
      earlier_def dt_fields_def)

section \<open>Title validation\<close>

text \<open>
  \<open>validate_title\<close> accepts an absent title and a title of at most 32 characters, and
  raises \<open>ValueError\<close> on a longer one.
\<close>

lemma validate_title_accepts:
  "validate_title t = (if t = None \<or> length (the t) \<le> 32 then Inr t else Inl (ValueError ''title must be < 32''))"
  by (auto simp: validate_title_def)

text \<open>
  C9. A title of exactly 32 characters is accepted and returned, although the message of
  the validator says that a title must be shorter than 32; the next length is rejected.
\<close>

theorem C9_title_of_length_32_accepted:
  "length (replicate 32 (CHR ''a'')) = 32 \<and>
   validate_title (Some (replicate 32 (CHR ''a''))) = Inr (Some (replicate 32 (CHR ''a''))) \<and>
   validate_title (Some (replicate 33 (CHR ''a''))) = Inl (ValueError ''title must be < 32'')"
  by (simp add: validate_title_def)

section \<open>Path resolution\<close>



section \<open>Decoding\<close>

lemma example_lib_version [simp]:
  "PasteMetaVersion_parse_raw example_lib l =
     (case map_of example_versions (rstrip newline (text_of l)) of
        None \<Rightarrow> Inl (ValidationError ''Expecting value: line 1 column 1 (char 0)'')
      | Some v \<Rightarrow> Inr \<lparr>version = v\<rparr>)"
  by (simp add: example_lib_def table_lib_def)

lemma example_models_lib_version [simp]:
  "PasteMetaVersion_parse_raw example_models_lib l =
     (case map_of example_versions (rstrip newline (text_of l)) of
        None \<Rightarrow> Inl (ValidationError ''Expecting value: line 1 column 1 (char 0)'')
      | Some v \<Rightarrow> Inr \<lparr>version = v\<rparr>)"
  by (simp add: example_models_lib_def table_lib_def)

lemma example_version_v99 [simp]:
  "map_of example_versions (rstrip newline example_line_v99) = Some 99"
  by (simp add: example_versions_def example_line_v99_def example_line_def example_line_past_def
      example_line_past_aware_def example_line_v2_def rstrip_def newline_def)

text \<open>
  C3. When the version of a line parses and is not the current one, both decoders raise
  \<open>PasteMetaVersionInvalid\<close> with a message that quotes the version, not
  \<open>PasteMetaUnprocessable\<close>; and the outcome is the same whatever parsing the full record
  would do (\<open>f\<close> replaces the parser of the full record), so that parse plays no part.
\<close>

theorem C3_version_invalid:
  assumes "PasteMetaVersion_parse_raw lib l = Inr pv"
    and "version pv \<noteq> CURRENT_PASTE_META_VERSION"
  shows "extract_from_line lib l =
           Inl (PasteMetaVersionInvalid
                  (''paste is not a valid version number of '' @ [CHR 0x27] @ str_int (version pv) @ [CHR 0x27])) \<and>
         extract_from_line (lib\<lparr>PasteMeta_parse_raw := f\<rparr>) l = extract_from_line lib l \<and>
         (\<forall>b. l = Bytes b \<longrightarrow>
            get_paste_meta lib b =
              Inl (PasteMetaVersionInvalid
                     (''paste is not a valid version number of '' @ [CHR 0x27] @ str_int (version pv) @ [CHR 0x27])) \<and>
            get_paste_meta (lib\<lparr>PasteMeta_parse_raw := f\<rparr>) b = get_paste_meta lib b)"
  using assms
  by (auto simp: extract_from_line_def extract_from_line_try_def get_paste_meta_def
      get_paste_meta_try_def version_invalid_def)

theorem C3_version_invalid_witness:
  "PasteMetaVersion_parse_raw example_lib (Bytes example_line_v99) = Inr \<lparr>version = 99\<rparr> \<and>
   version \<lparr>version = 99\<rparr> \<noteq> CURRENT_PASTE_META_VERSION \<and>
   extract_from_line example_lib (Bytes example_line_v99) =
     Inl (PasteMetaVersionInvalid (''paste is not a valid version number of '99'' @ [CHR 0x27])) \<and>
   extract_from_line (example_lib\<lparr>PasteMeta_parse_raw := \<lambda>l. Inl (ValueError ''unused'')\<rparr>)
       (Bytes example_line_v99) =
     extract_from_line example_lib (Bytes example_line_v99) \<and>
   get_paste_meta example_lib example_line_v99 =
     Inl (PasteMetaVersionInvalid (''paste is not a valid version number of '99'' @ [CHR 0x27]))"
proof -
  have parsed: "PasteMetaVersion_parse_raw example_lib (Bytes example_line_v99) = Inr \<lparr>version = 99\<rparr>"
    by (simp add: text_of_def)
  have other: "version \<lparr>version = 99\<rparr> \<noteq> CURRENT_PASTE_META_VERSION"
    by (simp add: CURRENT_PASTE_META_VERSION_def)
  have shown: "str_int 99 = ''99''"
    by code_simp
  show ?thesis
    using C3_version_invalid [OF parsed other, of "\<lambda>l. Inl (ValueError ''unused'')"] parsed other shown
    by simp
qed

text \<open>
  When parsing raises \<open>ValidationError\<close>, at the version or (the version being current) at
  the full record, \<open>extract_from_line\<close> raises \<open>PasteMetaUnprocessable\<close> with the line
  interpolated in its message, and \<open>get_paste_meta\<close> raises it with a fixed message.
\<close>

lemma extract_from_line_unprocessable:
  assumes "PasteMetaVersion_parse_raw lib l = Inl (ValidationError err) \<or>
           (\<exists>pv. PasteMetaVersion_parse_raw lib l = Inr pv \<and>
                 version pv = CURRENT_PASTE_META_VERSION \<and>
                 PasteMeta_parse_raw lib l = Inl (ValidationError err))"
  shows "extract_from_line lib l =
           Inl (PasteMetaUnprocessable
                  (''paste meta validation did not pass: '' @ [CHR 0x27] @ format_line l @ [CHR 0x27])
                  (ValidationError err))"
  using assms by (auto simp: extract_from_line_def extract_from_line_try_def)

lemma get_paste_meta_unprocessable:
  assumes "PasteMetaVersion_parse_raw lib (Bytes b) = Inl (ValidationError err) \<or>
           (\<exists>pv. PasteMetaVersion_parse_raw lib (Bytes b) = Inr pv \<and>
                 version pv = CURRENT_PASTE_META_VERSION \<and>
                 PasteMeta_parse_raw lib (Bytes b) = Inl (ValidationError err))"
  shows "get_paste_meta lib b =
           Inl (PasteMetaUnprocessable ''paste meta cannot be loaded'' (ValidationError err))"
  using assms by (auto simp: get_paste_meta_def get_paste_meta_try_def)

lemma example_version_v1_only [simp]:
  "map_of example_versions (rstrip newline example_line_v1_only) = Some 1"
  by (simp add: example_versions_def example_line_v1_only_def example_line_v99_def example_line_def
      example_line_past_def example_line_past_aware_def example_line_v2_def rstrip_def newline_def)

lemma example_lib_meta_v1_only [simp]:
  "PasteMeta_parse_raw example_lib (Bytes example_line_v1_only) =
     Inl (ValidationError ''paste_id: field required'')"
  by (simp add: example_lib_def table_lib_def text_of_def example_line_v1_only_def example_line_def
      example_line_past_def example_line_past_aware_def example_line_v2_def rstrip_def newline_def)

lemma example_models_lib_meta_v1_only [simp]:
  "PasteMeta_parse_raw example_models_lib (Bytes example_line_v1_only) =
     Inl (ValidationError ''paste_id: field required'')"
  by (simp add: example_models_lib_def table_lib_def text_of_def example_line_v1_only_def
      example_line_models_def rstrip_def newline_def)

lemma extract_from_line_unprocessable_witness:
  "(PasteMetaVersion_parse_raw example_models_lib (Bytes example_line_v1_only) =
      Inl (ValidationError ''paste_id: field required'') \<or>
    (\<exists>pv. PasteMetaVersion_parse_raw example_models_lib (Bytes example_line_v1_only) = Inr pv \<and>
          version pv = CURRENT_PASTE_META_VERSION \<and>
          PasteMeta_parse_raw example_models_lib (Bytes example_line_v1_only) =
            Inl (ValidationError ''paste_id: field required''))) \<and>
   extract_from_line example_models_lib (Bytes example_line_v1_only) =
     Inl (PasteMetaUnprocessable
            (''paste meta validation did not pass: '' @ [CHR 0x27] @
               format_line (Bytes example_line_v1_only) @ [CHR 0x27])
            (ValidationError ''paste_id: field required''))"
proof -
  have failed:
    "PasteMetaVersion_parse_raw example_models_lib (Bytes example_line_v1_only) =
       Inl (ValidationError ''paste_id: field required'') \<or>
     (\<exists>pv. PasteMetaVersion_parse_raw example_models_lib (Bytes example_line_v1_only) = Inr pv \<and>
           version pv = CURRENT_PASTE_META_VERSION \<and>
           PasteMeta_parse_raw example_models_lib (Bytes example_line_v1_only) =
             Inl (ValidationError ''paste_id: field required''))"
    by (simp add: text_of_def CURRENT_PASTE_META_VERSION_def)
  show ?thesis
    using extract_from_line_unprocessable [OF failed] failed by blast
qed

lemma get_paste_meta_unprocessable_witness:
  "(PasteMetaVersion_parse_raw example_lib (Bytes example_line_v1_only) =
      Inl (ValidationError ''paste_id: field required'') \<or>
    (\<exists>pv. PasteMetaVersion_parse_raw example_lib (Bytes example_line_v1_only) = Inr pv \<and>
          version pv = CURRENT_PASTE_META_VERSION \<and>
          PasteMeta_parse_raw example_lib (Bytes example_line_v1_only) =
            Inl (ValidationError ''paste_id: field required''))) \<and>
   get_paste_meta example_lib example_line_v1_only =
     Inl (PasteMetaUnprocessable ''paste meta cannot be loaded''
            (ValidationError ''paste_id: field required''))"
proof -
  have failed:
    "PasteMetaVersion_parse_raw example_lib (Bytes example_line_v1_only) =
       Inl (ValidationError ''paste_id: field required'') \<or>
     (\<exists>pv. PasteMetaVersion_parse_raw example_lib (Bytes example_line_v1_only) = Inr pv \<and>
           version pv = CURRENT_PASTE_META_VERSION \<and>
           PasteMeta_parse_raw example_lib (Bytes example_line_v1_only) =
             Inl (ValidationError ''paste_id: field required''))"
    by (simp add: text_of_def CURRENT_PASTE_META_VERSION_def)
  show ?thesis
    using get_paste_meta_unprocessable [OF failed] failed by blast
qed

text \<open>
  C4. On the line \<open>{"version": 1}\<close>, whose version parses and is current and whose full
  record does not validate, both decoders raise \<open>PasteMetaUnprocessable\<close>.
  \<open>extract_from_line\<close> puts the line in the message; \<open>get_paste_meta\<close> raises the message
  \<open>paste meta cannot be loaded\<close>, in which the line does not appear, with the library's
  error as its cause.
\<close>

theorem C4_get_paste_meta_message_without_line:
  "extract_from_line example_models_lib (Bytes example_line_v1_only) =
     Inl (PasteMetaUnprocessable
            (''paste meta validation did not pass: 'b'{\"version\": 1}'' @ [CHR 0x27, CHR 0x27])
            (ValidationError ''paste_id: field required'')) \<and>
   get_paste_meta example_lib example_line_v1_only =
     Inl (PasteMetaUnprocessable ''paste meta cannot be loaded''
            (ValidationError ''paste_id: field required''))"
proof -
  have repr: "format_line (Bytes example_line_v1_only) = ''b'{\"version\": 1}'' @ [CHR 0x27]"
    by code_simp
  show ?thesis
    by (simp add: extract_from_line_def extract_from_line_try_def get_paste_meta_def
        get_paste_meta_try_def text_of_def CURRENT_PASTE_META_VERSION_def repr)
qed

section \<open>The codec and the stored file\<close>

lemma char_of_not_newline: "n mod 256 \<noteq> 10 \<Longrightarrow> char_of (n::nat) \<noteq> newline"
proof
  assume n: "n mod 256 \<noteq> 10" and "char_of n = newline"
  then have "(of_char (char_of n) :: nat) = of_char newline" by simp
  then show False using n by (simp add: newline_def)
qed

lemma encode_char_newline: "newline \<in> set (encode_char c) \<longleftrightarrow> c = newline"
proof (cases "(of_char c :: nat) < 128")
  case True
  then show ?thesis by (auto simp: encode_char_def)
next
  case False
  have lt: "(of_char c :: nat) < 256" by simp
  have "(of_char c :: nat) div 64 < 4" using lt by (simp add: div_less_iff_less_mult)
  then have a: "(192 + (of_char c :: nat) div 64) mod 256 \<noteq> 10" by simp
  have "(of_char c :: nat) mod 64 < 64" by simp
  then have b: "(128 + (of_char c :: nat) mod 64) mod 256 \<noteq> 10" by simp
  have "c \<noteq> newline" using False by (auto simp: newline_def)
  then show ?thesis
    using False char_of_not_newline[OF a] char_of_not_newline[OF b]
    by (simp add: encode_char_def)
qed

text \<open>Encoding a text neither adds nor removes a newline.\<close>

lemma encode_newline: "newline \<in> set (encode s) \<longleftrightarrow> newline \<in> set s"
  by (induction s) (auto simp: encode_def encode_char_newline)

lemma readline_first:
  "newline \<notin> set l \<Longrightarrow> readline (l @ newline # rest) = (l @ [newline], rest)"
  by (induction l) (auto simp: readline_def Let_def)

lemma readline_concat: "fst (readline fo) @ snd (readline fo) = fo"
  by (simp add: readline_def Let_def)

text \<open>The lines a file is iterated into are the file, cut and not changed.\<close>

lemma concat_aiter_lines: "concat (aiter_lines fo) = fo"
proof (induction fo rule: aiter_lines.induct)
  case (1 fo)
  show ?case
  proof (cases "fo = []")
    case True
    then show ?thesis by (subst aiter_lines.simps) simp
  next
    case False
    then have "concat (aiter_lines fo) = fst (readline fo) @ concat (aiter_lines (snd (readline fo)))"
      by (subst aiter_lines.simps) simp
    also have "\<dots> = fst (readline fo) @ snd (readline fo)"
      using "1.IH" [OF False] by simp
    finally show ?thesis by (simp add: readline_concat)
  qed
qed

lemma write_chunks_file:
  "fs p = Some old \<Longrightarrow> write_chunks p chunks fs p = Some (old @ concat chunks)"
  by (induction chunks arbitrary: fs old) (simp_all add: fo_write_def)

lemma write_chunks_other: "q \<noteq> p \<Longrightarrow> write_chunks p chunks fs q = fs q"
  by (induction chunks arbitrary: fs) (simp_all add: fo_write_def)

text \<open>The bytes a content stands for: the buffer, or the chunks in the order they are yielded.\<close>

definition content_bytes :: "content \<Rightarrow> bytes" where
  "content_bytes c = (case c of Buffer b \<Rightarrow> b | AsyncGenerator chunks \<Rightarrow> concat chunks)"

text \<open>
  What \<open>write_paste\<close> leaves at the path, whatever was there: the encoded JSON text of the
  metadata, a newline, and the content. No other file changes.
\<close>

lemma write_paste_file:
  "write_paste lib p m c fs p =
     Some (encode (PasteMeta_json lib m) @ [newline] @ content_bytes c)"
  by (cases c) (simp_all add: write_paste_def Let_def open_wb_def fo_write_def content_bytes_def
      write_chunks_file)

lemma write_paste_other: "q \<noteq> p \<Longrightarrow> write_paste lib p m c fs q = fs q"
  by (cases c) (simp_all add: write_paste_def Let_def open_wb_def fo_write_def write_chunks_other)

lemma readline_written:
  assumes "newline \<notin> set (PasteMeta_json lib m)"
  shows "readline (encode (PasteMeta_json lib m) @ [newline] @ rest) =
           (encode (PasteMeta_json lib m) @ [newline], rest)"
  using readline_first [of "encode (PasteMeta_json lib m)" rest] assms
  by (simp add: encode_newline)

lemma get_paste_meta_current:
  assumes "PasteMetaVersion_parse_raw lib (Bytes b) = Inr pv"
    and "version pv = CURRENT_PASTE_META_VERSION"
    and "PasteMeta_parse_raw lib (Bytes b) = Inr m"
  shows "get_paste_meta lib b = Inr m"
  using assms by (simp add: get_paste_meta_def get_paste_meta_try_def)

lemma example_lib_json [simp]:
  "PasteMeta_json example_lib example_meta = example_line"
  "PasteMeta_json example_lib (example_meta\<lparr>version := 2\<rparr>) = example_line_v2"
  "PasteMeta_json example_lib (example_meta\<lparr>expire_dt := Some example_past\<rparr>) = example_line_past"
  "PasteMeta_json example_lib (example_meta\<lparr>expire_dt := Some example_past_aware\<rparr>) =
     example_line_past_aware"
  by (simp_all add: example_lib_def table_lib_def example_meta_def example_past_aware_def
      example_past_def)

lemma encode_example_lines [simp]:
  "encode example_line = example_line"
  "encode example_line_v2 = example_line_v2"
  "encode example_line_past = example_line_past"
  "encode example_line_past_aware = example_line_past_aware"
  by code_simp+

lemma example_lines_no_newline [simp]:
  "newline \<notin> set example_line"
  "newline \<notin> set example_line_v2"
  "newline \<notin> set example_line_past"
  "newline \<notin> set example_line_past_aware"
  by code_simp+

lemma rstrip_example_lines [simp]:
  "rstrip newline example_line = example_line"
  "rstrip newline (example_line @ [newline]) = example_line"
  "rstrip newline example_line_v2 = example_line_v2"
  "rstrip newline (example_line_v2 @ [newline]) = example_line_v2"
  "rstrip newline example_line_past = example_line_past"
  "rstrip newline (example_line_past @ [newline]) = example_line_past"
  "rstrip newline example_line_past_aware = example_line_past_aware"
  "rstrip newline (example_line_past_aware @ [newline]) = example_line_past_aware"
  by code_simp+

lemma example_lines_distinct [simp]:
  "example_line \<noteq> example_line_past" "example_line \<noteq> example_line_past_aware"
  "example_line \<noteq> example_line_v2" "example_line_past \<noteq> example_line_past_aware"
  "example_line_past \<noteq> example_line_v2" "example_line_past_aware \<noteq> example_line_v2"
  "example_line_past \<noteq> example_line" "example_line_past_aware \<noteq> example_line"
  "example_line_v2 \<noteq> example_line" "example_line_past_aware \<noteq> example_line_past"
  "example_line_v2 \<noteq> example_line_past" "example_line_v2 \<noteq> example_line_past_aware"
  by code_simp+

lemma example_lib_parses [simp]:
  "PasteMeta_parse_raw example_lib (Bytes example_line) = Inr example_meta"
  "PasteMeta_parse_raw example_lib (Bytes (example_line @ [newline])) = Inr example_meta"
  "PasteMeta_parse_raw example_lib (Bytes (example_line_v2 @ [newline])) =
     Inr (example_meta\<lparr>version := 2\<rparr>)"
  "PasteMeta_parse_raw example_lib (Bytes (example_line_past @ [newline])) =
     Inr (example_meta\<lparr>expire_dt := Some example_past\<rparr>)"
  "PasteMeta_parse_raw example_lib (Bytes (example_line_past_aware @ [newline])) =
     Inr (example_meta\<lparr>expire_dt := Some example_past_aware\<rparr>)"
  by (simp_all add: example_lib_def table_lib_def text_of_def)

lemma example_versions_of [simp]:
  "map_of example_versions example_line = Some 1"
  "map_of example_versions example_line_v2 = Some 2"
  "map_of example_versions example_line_past = Some 1"
  "map_of example_versions example_line_past_aware = Some 1"
  by (simp_all add: example_versions_def)



text \<open>
  C1, as stated for every \<open>PasteMeta\<close>, fails on one whose version is not the current
  one: written with version 2 and the content \<open>hello\<close>, the file holds the metadata line
  and the content, and \<open>read_paste_meta\<close> raises \<open>PasteMetaVersionInvalid\<close> instead of
  returning the record.
\<close>

theorem C1_other_version_not_read_back:
  "write_paste example_lib example_path (example_meta\<lparr>version := 2\<rparr>) (Buffer ''hello'') Map.empty
       example_path =
     Some (example_line_v2 @ [newline] @ ''hello'') \<and>
   read_paste_meta example_lib example_path
       (write_paste example_lib example_path (example_meta\<lparr>version := 2\<rparr>) (Buffer ''hello'') Map.empty) =
     Inl (PasteMetaVersionInvalid (''paste is not a valid version number of '2'' @ [CHR 0x27])) \<and>
   read_paste_meta example_lib example_path
       (write_paste example_lib example_path (example_meta\<lparr>version := 2\<rparr>) (Buffer ''hello'') Map.empty) \<noteq>
     Inr (example_meta\<lparr>version := 2\<rparr>)"
proof -
  have shown: "str_int 2 = ''2''"
    by code_simp
  have line: "readline (example_line_v2 @ [newline] @ ''hello'') = (example_line_v2 @ [newline], ''hello'')"
    using readline_first [of example_line_v2 "''hello''"] by simp
  show ?thesis
    by (simp add: write_paste_file content_bytes_def read_paste_meta_def open_rb_def line [simplified]
        get_paste_meta_def get_paste_meta_try_def text_of_def CURRENT_PASTE_META_VERSION_def
        version_invalid_def shown)
qed

text \<open>
  C1, amended. Let \<open>m\<close> be a \<open>PasteMeta\<close> whose version is the current one and whose JSON
  text the library writes without a newline and, read with the newline that ends the
  line, parses back as \<open>m\<close>. After \<open>write_paste\<close> has stored \<open>m\<close> and a content \<open>c\<close> at a
  path, whatever the store held before, the file is the encoded metadata line followed by
  the bytes of \<open>c\<close>; \<open>read_paste_meta\<close> returns \<open>m\<close>; and the chunks \<open>read_paste_content\<close>
  yields, concatenated, are exactly the bytes of \<open>c\<close>.
\<close>

theorem C1_storage_round_trip:
  assumes "version m = CURRENT_PASTE_META_VERSION"
    and "PasteMetaVersion_parse_raw lib (Bytes (encode (PasteMeta_json lib m) @ [newline])) =
           Inr \<lparr>version = version m\<rparr>"
    and "PasteMeta_parse_raw lib (Bytes (encode (PasteMeta_json lib m) @ [newline])) = Inr m"
    and "newline \<notin> set (PasteMeta_json lib m)"
  shows "write_paste lib p m c fs p =
           Some (encode (PasteMeta_json lib m) @ [newline] @ content_bytes c) \<and>
         read_paste_meta lib p (write_paste lib p m c fs) = Inr m \<and>
         read_paste_content p (write_paste lib p m c fs) = Inr (aiter_lines (content_bytes c)) \<and>
         concat (aiter_lines (content_bytes c)) = content_bytes c"
proof -
  have line: "readline (encode (PasteMeta_json lib m) @ [newline] @ content_bytes c) =
      (encode (PasteMeta_json lib m) @ [newline], content_bytes c)"
    using assms(4) by (rule readline_written)
  have meta: "get_paste_meta lib (encode (PasteMeta_json lib m) @ [newline]) = Inr m"
    using assms(2) _ assms(3) by (rule get_paste_meta_current) (simp add: assms(1))
  show ?thesis
    by (simp add: write_paste_file read_paste_meta_def read_paste_content_def open_rb_def
        line [simplified] meta concat_aiter_lines)
qed

theorem C1_storage_round_trip_witness:
  "version example_meta = CURRENT_PASTE_META_VERSION \<and>
   PasteMetaVersion_parse_raw example_lib (Bytes (encode (PasteMeta_json example_lib example_meta) @ [newline])) =
     Inr \<lparr>version = version example_meta\<rparr> \<and>
   PasteMeta_parse_raw example_lib (Bytes (encode (PasteMeta_json example_lib example_meta) @ [newline])) =
     Inr example_meta \<and>
   newline \<notin> set (PasteMeta_json example_lib example_meta) \<and>
   write_paste example_lib example_path example_meta (AsyncGenerator [''hel'', ''lo'']) Map.empty example_path =
     Some (example_line @ [newline] @ ''hello'') \<and>
   read_paste_meta example_lib example_path
       (write_paste example_lib example_path example_meta (AsyncGenerator [''hel'', ''lo'']) Map.empty) =
     Inr example_meta \<and>
   read_paste_content example_path
       (write_paste example_lib example_path example_meta (AsyncGenerator [''hel'', ''lo'']) Map.empty) =
     Inr [''hello'']"
proof -
  have current: "version example_meta = CURRENT_PASTE_META_VERSION"
    by (simp add: example_meta_def CURRENT_PASTE_META_VERSION_def)
  have v: "PasteMetaVersion_parse_raw example_lib
        (Bytes (encode (PasteMeta_json example_lib example_meta) @ [newline])) =
      Inr \<lparr>version = version example_meta\<rparr>"
    using current by (simp add: text_of_def CURRENT_PASTE_META_VERSION_def)
  have r: "PasteMeta_parse_raw example_lib
        (Bytes (encode (PasteMeta_json example_lib example_meta) @ [newline])) = Inr example_meta"
    by simp
  have n: "newline \<notin> set (PasteMeta_json example_lib example_meta)"
    by simp
  have chunks: "content_bytes (AsyncGenerator [''hel'', ''lo'']) = ''hello''"
    by (simp add: content_bytes_def)
  have lines: "aiter_lines ''hello'' = [''hello'']"
    by code_simp
  show ?thesis
    using C1_storage_round_trip [OF current v r n, of example_path "AsyncGenerator [''hel'', ''lo'']" Map.empty]
      current v r n
    by (simp add: chunks lines)
qed

end
